theory Spec2Isabelle
  imports Main "HOL-Library.Sublist"
begin

section \<open>JavaScript values handled by the proxy and the chat component\<close>

text \<open>
  A parsed JSON document, as \<^verbatim>\<open>JSON.parse\<close> (behind \<^verbatim>\<open>res.json()\<close> and the body parser)
  hands it to the program. A number is carried as the text ECMAScript's Number::toString
  gives for it: the program only tests numbers for zero and prints them, and both
  \<^verbatim>\<open>+0\<close> and \<^verbatim>\<open>-0\<close> print as \<^verbatim>\<open>0\<close>. A literal too large for a double, such as
  \<^verbatim>\<open>1e400\<close>, parses to an infinity, whose text is \<^verbatim>\<open>Infinity\<close> or \<^verbatim>\<open>-Infinity\<close>; no
  literal parses to \<^verbatim>\<open>NaN\<close>. An object is the list of its own properties, whose names
  are distinct, in enumeration order. Strings are lists of code units below 256.
\<close>

datatype json =
    JNull
  | JBool bool
  | JNumber string
  | JString string
  | JArray "json list"
  | JObject "(string \<times> json) list"

text \<open>The result of reading a property: a JSON value, or \<^verbatim>\<open>undefined\<close>.\<close>

datatype js_value = Undefined | Val json

text \<open>A thrown value; every one the program can meet carries a message.\<close>

datatype js_error = Error string | TypeError string | SyntaxError string

fun err_message :: "js_error \<Rightarrow> string" where
  "err_message (Error m) = m"
| "err_message (TypeError m) = m"
| "err_message (SyntaxError m) = m"

text \<open>An expression either throws or yields a value.\<close>

type_synonym completion = "js_error + js_value"

text \<open>ToBoolean, as \<^verbatim>\<open>!\<close>, \<^verbatim>\<open>||\<close> and \<^verbatim>\<open>&&\<close> apply it.\<close>

fun truthy :: "js_value \<Rightarrow> bool" where
  "truthy Undefined = False"
| "truthy (Val JNull) = False"
| "truthy (Val (JBool b)) = b"
| "truthy (Val (JNumber n)) = (n \<noteq> ''0'' \<and> n \<noteq> ''NaN'')"
| "truthy (Val (JString s)) = (s \<noteq> [])"
| "truthy (Val (JArray xs)) = True"
| "truthy (Val (JObject kvs)) = True"

subsection \<open>\<^verbatim>\<open>JSON.stringify\<close>\<close>

definition hex_digit :: "nat \<Rightarrow> char" where
  "hex_digit n = ''0123456789abcdef'' ! (n mod 16)"

text \<open>QuoteJSONString, one code unit at a time.\<close>

definition quote_char :: "char \<Rightarrow> string" where
  "quote_char c =
     (if c = CHR 0x08 then [CHR 0x5C, CHR ''b'']
      else if c = CHR 0x09 then [CHR 0x5C, CHR ''t'']
      else if c = CHR 0x0A then [CHR 0x5C, CHR ''n'']
      else if c = CHR 0x0C then [CHR 0x5C, CHR ''f'']
      else if c = CHR 0x0D then [CHR 0x5C, CHR ''r'']
      else if c = CHR 0x22 then [CHR 0x5C, CHR 0x22]
      else if c = CHR 0x5C then [CHR 0x5C, CHR 0x5C]
      else if of_char c < (0x20 :: nat)
        then [CHR 0x5C, CHR ''u'', CHR ''0'', CHR ''0'',
              hex_digit (of_char c div 16), hex_digit (of_char c)]
      else [c])"

definition quote :: "string \<Rightarrow> string" where
  "quote s = [CHR 0x22] @ concat (map quote_char s) @ [CHR 0x22]"

fun join :: "string \<Rightarrow> string list \<Rightarrow> string" where
  "join sep [] = []"
| "join sep [x] = x"
| "join sep (x # y # ys) = x @ sep @ join sep (y # ys)"

text \<open>The numbers that are not finite: \<^verbatim>\<open>JSON.stringify\<close> prints them as \<^verbatim>\<open>null\<close>.\<close>

definition non_finite :: "string \<Rightarrow> bool" where
  "non_finite n \<longleftrightarrow> n = ''Infinity'' \<or> n = ''-Infinity'' \<or> n = ''NaN''"

text \<open>
  On a parsed document \<^verbatim>\<open>JSON.stringify\<close> always yields a string: no value is
  \<^verbatim>\<open>undefined\<close>, a function or cyclic, and a \<^verbatim>\<open>toJSON\<close> property is never callable.
  A finite number prints as Number::toString gives it, any other as \<^verbatim>\<open>null\<close>.
\<close>

fun JSON_stringify :: "json \<Rightarrow> string" where
  "JSON_stringify JNull = ''null''"
| "JSON_stringify (JBool b) = (if b then ''true'' else ''false'')"
| "JSON_stringify (JNumber n) = (if non_finite n then ''null'' else n)"
| "JSON_stringify (JString s) = quote s"
| "JSON_stringify (JArray xs) = ''['' @ join '','' (map JSON_stringify xs) @ '']''"
| "JSON_stringify (JObject kvs) =
     ''{'' @ join '','' (map (\<lambda>kv. quote (fst kv) @ '':'' @ JSON_stringify (snd kv)) kvs) @ ''}''"

subsection \<open>Property reads and logical operators\<close>

definition cannot_read :: "string \<Rightarrow> string \<Rightarrow> js_error" where
  "cannot_read what name =
     TypeError (''Cannot read properties of '' @ what @ '' (reading ''
                @ [CHR 0x27] @ name @ [CHR 0x27] @ '')'')"

text \<open>
  \<^verbatim>\<open>o.name\<close> for the names the chat component reads (\<^verbatim>\<open>output\<close>, \<^verbatim>\<open>choices\<close>, \<^verbatim>\<open>text\<close>,
  \<^verbatim>\<open>message\<close>, \<^verbatim>\<open>content\<close>). No built-in prototype defines any of them, so only an
  object's own property answers; a primitive, boxed for the read, and an array give
  \<^verbatim>\<open>undefined\<close>; \<^verbatim>\<open>null\<close> and \<^verbatim>\<open>undefined\<close> throw.
\<close>

fun get :: "completion \<Rightarrow> string \<Rightarrow> completion" where
  "get (Inl err) name = Inl err"
| "get (Inr Undefined) name = Inl (cannot_read ''undefined'' name)"
| "get (Inr (Val JNull)) name = Inl (cannot_read ''null'' name)"
| "get (Inr (Val (JObject kvs))) name =
     Inr (case map_of kvs name of None \<Rightarrow> Undefined | Some v \<Rightarrow> Val v)"
| "get (Inr (Val v)) name = Inr Undefined"

text \<open>\<^verbatim>\<open>o?.name\<close>\<close>

fun get_optional :: "completion \<Rightarrow> string \<Rightarrow> completion" where
  "get_optional (Inr Undefined) name = Inr Undefined"
| "get_optional (Inr (Val JNull)) name = Inr Undefined"
| "get_optional c name = get c name"

text \<open>\<^verbatim>\<open>o[0]\<close>\<close>

fun index0 :: "completion \<Rightarrow> completion" where
  "index0 (Inl err) = Inl err"
| "index0 (Inr Undefined) = Inl (cannot_read ''undefined'' ''0'')"
| "index0 (Inr (Val JNull)) = Inl (cannot_read ''null'' ''0'')"
| "index0 (Inr (Val (JArray []))) = Inr Undefined"
| "index0 (Inr (Val (JArray (x # xs)))) = Inr (Val x)"
| "index0 (Inr (Val (JString []))) = Inr Undefined"
| "index0 (Inr (Val (JString (c # cs)))) = Inr (Val (JString [c]))"
| "index0 (Inr (Val (JObject kvs))) =
     Inr (case map_of kvs ''0'' of None \<Rightarrow> Undefined | Some v \<Rightarrow> Val v)"
| "index0 (Inr (Val v)) = Inr Undefined"

text \<open>\<^verbatim>\<open>Array.isArray(o)\<close>\<close>

fun isArray :: "completion \<Rightarrow> completion" where
  "isArray (Inl err) = Inl err"
| "isArray (Inr (Val (JArray xs))) = Inr (Val (JBool True))"
| "isArray (Inr v) = Inr (Val (JBool False))"

text \<open>
  \<^verbatim>\<open>a || b\<close> and \<^verbatim>\<open>a && b\<close>: the right operand counts only when the left one has not
  thrown and does not decide the result, which is the short circuit.
\<close>

definition or_js :: "completion \<Rightarrow> completion \<Rightarrow> completion" where
  "or_js a b = (case a of Inl err \<Rightarrow> Inl err | Inr v \<Rightarrow> if truthy v then Inr v else b)"

definition and_js :: "completion \<Rightarrow> completion \<Rightarrow> completion" where
  "and_js a b = (case a of Inl err \<Rightarrow> Inl err | Inr v \<Rightarrow> if truthy v then b else Inr v)"

subsection \<open>\<^verbatim>\<open>String(v)\<close>\<close>

text \<open>The results of a list of steps run in order, or the first error thrown.\<close>

fun sequence :: "('e + 'a) list \<Rightarrow> 'e + 'a list" where
  "sequence [] = Inr []"
| "sequence (Inl err # rest) = Inl err"
| "sequence (Inr x # rest) =
     (case sequence rest of Inl err \<Rightarrow> Inl err | Inr xs \<Rightarrow> Inr (x # xs))"

text \<open>
  ToString. An array prints through \<^verbatim>\<open>Array.prototype.join\<close>, where \<^verbatim>\<open>null\<close> prints
  as the empty string. A plain object prints through \<^verbatim>\<open>Object.prototype.toString\<close>,
  unless an own property named \<^verbatim>\<open>toString\<close> hides it: a parsed value is never callable
  and \<^verbatim>\<open>valueOf\<close> gives back the object, so the conversion throws.
\<close>

fun ToString :: "json \<Rightarrow> js_error + string" where
  "ToString JNull = Inr ''null''"
| "ToString (JBool b) = Inr (if b then ''true'' else ''false'')"
| "ToString (JNumber n) = Inr n"
| "ToString (JString s) = Inr s"
| "ToString (JArray xs) =
     (case sequence (map (\<lambda>x. if x = JNull then Inr [] else ToString x) xs) of
        Inl err \<Rightarrow> Inl err
      | Inr parts \<Rightarrow> Inr (join '','' parts))"
| "ToString (JObject kvs) =
     (if ''toString'' \<in> set (map fst kvs)
      then Inl (TypeError ''Cannot convert object to primitive value'')
      else Inr ''[object Object]'')"

fun String_js :: "js_value \<Rightarrow> js_error + string" where
  "String_js Undefined = Inr ''undefined''"
| "String_js (Val v) = ToString v"

section \<open>The proxy route: \<^verbatim>\<open>handler(req, res)\<close>\<close>

text \<open>The inbound request: its method and the body the framework parsed.\<close>

record req =
  req_method :: string
  req_body :: json

text \<open>\<^verbatim>\<open>process.env\<close>: a variable is a string or is not set.\<close>

record process_env =
  THESYS_API_KEY :: "string option"
  THESYS_API_URL :: "string option"

text \<open>The second argument of \<^verbatim>\<open>fetch\<close>.\<close>

record fetch_init =
  init_method :: string
  init_headers :: "(string \<times> string) list"
  init_body :: string

text \<open>
  What the handler reads of the upstream response: its status, the value of
  \<^verbatim>\<open>headers.get('content-type')\<close> (\<^verbatim>\<open>null\<close> is \<open>None\<close>), and what \<^verbatim>\<open>json()\<close> and
  \<^verbatim>\<open>text()\<close> resolve to or reject with.
\<close>

record upstream_resp =
  up_status :: nat
  up_content_type :: "string option"
  up_json :: "js_error + json"
  up_text :: "js_error + string"

text \<open>The transport: \<^verbatim>\<open>fetch(url, init)\<close> rejects or resolves to a response.\<close>

type_synonym fetch = "string \<Rightarrow> fetch_init \<Rightarrow> js_error + upstream_resp"

text \<open>
  The outbound response object \<^verbatim>\<open>res\<close>, as a record of what the handler did to it:
  headers set, status set, body sent through \<^verbatim>\<open>json\<close> or \<^verbatim>\<open>send\<close>.
\<close>

datatype header_value = HString string | HArray "string list"

datatype res_body = JsonBody json | TextBody string

record res =
  res_headers :: "(string \<times> header_value) list"
  res_statusCode :: nat
  res_body :: "res_body option"

definition fresh_res :: res where
  "fresh_res = \<lparr>res_headers = [], res_statusCode = 200, res_body = None\<rparr>"

definition setHeader :: "string \<Rightarrow> header_value \<Rightarrow> res \<Rightarrow> res" where
  "setHeader name v r =
     r\<lparr>res_headers := filter (\<lambda>h. fst h \<noteq> name) (res_headers r) @ [(name, v)]\<rparr>"

definition status :: "nat \<Rightarrow> res \<Rightarrow> res" where
  "status code r = r\<lparr>res_statusCode := code\<rparr>"

definition res_json :: "json \<Rightarrow> res \<Rightarrow> res" where
  "res_json data r = r\<lparr>res_body := Some (JsonBody data)\<rparr>"

definition res_send :: "string \<Rightarrow> res \<Rightarrow> res" where
  "res_send txt r = r\<lparr>res_body := Some (TextBody txt)\<rparr>"

text \<open>A run of the handler: the response, the upstream calls issued, the server log.\<close>

record run =
  response :: res
  calls :: "(string \<times> fetch_init) list"
  console :: "(string \<times> js_error) list"

text \<open>\<^verbatim>\<open>!x\<close> on an environment variable: unset or the empty string.\<close>

fun unset :: "string option \<Rightarrow> bool" where
  "unset None = True"
| "unset (Some s) = (s = [])"

text \<open>\<^verbatim>\<open>s.includes(p)\<close>: \<open>p\<close> occurs in \<open>s\<close> as a contiguous run, case-sensitively.\<close>

fun includes_str :: "string \<Rightarrow> string \<Rightarrow> bool" where
  "includes_str [] p = (p = [])"
| "includes_str (c # cs) p = (prefix p (c # cs) \<or> includes_str cs p)"

text \<open>The \<^verbatim>\<open>init\<close> object of the upstream call (lines 23 to 30).\<close>

definition upstream_init :: "string \<Rightarrow> json \<Rightarrow> fetch_init" where
  "upstream_init key body =
     \<lparr>init_method = ''POST'',
      init_headers = [(''Content-Type'', ''application/json''),
                      (''Authorization'', ''Bearer '' @ key)],
      init_body = JSON_stringify body\<rparr>"

text \<open>\<^verbatim>\<open>upstreamResp.headers.get('content-type') || ''\<close>\<close>

definition contentType :: "upstream_resp \<Rightarrow> string" where
  "contentType up = (case up_content_type up of None \<Rightarrow> [] | Some c \<Rightarrow> c)"

text \<open>
  Lines 32 to 42, after \<^verbatim>\<open>fetch\<close> has resolved: the response built from the upstream
  one, or the error thrown while reading its body.
\<close>

definition relay :: "upstream_resp \<Rightarrow> res \<Rightarrow> js_error + res" where
  "relay up r =
     (if includes_str (contentType up) ''application/json''
      then (case up_json up of
              Inl err \<Rightarrow> Inl err
            | Inr data \<Rightarrow> Inr (res_json data (status (up_status up) r)))
      else (case up_text up of
              Inl err \<Rightarrow> Inl err
            | Inr txt \<Rightarrow>
                Inr (res_send txt
                       (status (up_status up)
                          (setHeader ''content-type'' (HString (contentType up)) r)))))"

text \<open>The \<^verbatim>\<open>try\<close> block, lines 21 to 42.\<close>

definition forward :: "fetch \<Rightarrow> string \<Rightarrow> string \<Rightarrow> json \<Rightarrow> res \<Rightarrow> js_error + res" where
  "forward fetch url key body r =
     (case fetch url (upstream_init key body) of
        Inl err \<Rightarrow> Inl err
      | Inr upstreamResp \<Rightarrow> relay upstreamResp r)"

text \<open>
  The handler. Past the configuration check both variables are set, so \<open>the\<close> reads
  their values.
\<close>

definition handler :: "process_env \<Rightarrow> fetch \<Rightarrow> req \<Rightarrow> run" where
  "handler env fetch rq =
     (if req_method rq \<noteq> ''POST''
      then \<lparr>response =
              res_json (JObject [(''error'', JString ''Method not allowed'')])
                (status 405 (setHeader ''Allow'' (HArray [''POST'']) fresh_res)),
            calls = [], console = []\<rparr>
      else if unset (THESYS_API_KEY env) \<or> unset (THESYS_API_URL env)
      then \<lparr>response =
              res_json (JObject [(''error'', JString ''Thesys API key or URL not configured on server'')])
                (status 500 fresh_res),
            calls = [], console = []\<rparr>
      else
        (let key = the (THESYS_API_KEY env); url = the (THESYS_API_URL env) in
         case forward fetch url key (req_body rq) fresh_res of
           Inr r \<Rightarrow>
             \<lparr>response = r,
              calls = [(url, upstream_init key (req_body rq))], console = []\<rparr>
         | Inl err \<Rightarrow>
             \<lparr>response =
                res_json (JObject [(''error'', JString ''Error contacting Thesys API'')])
                  (status 500 fresh_res),
              calls = [(url, upstream_init key (req_body rq))],
              console = [(''Error proxying to Thesys:'', err)]\<rparr>))"

text \<open>The three responses the handler writes by itself, evaluated.\<close>

definition error_response :: "nat \<Rightarrow> string \<Rightarrow> res" where
  "error_response code msg =
     \<lparr>res_headers = [], res_statusCode = code,
      res_body = Some (JsonBody (JObject [(''error'', JString msg)]))\<rparr>"

definition method_not_allowed_response :: res where
  "method_not_allowed_response =
     \<lparr>res_headers = [(''Allow'', HArray [''POST''])], res_statusCode = 405,
      res_body = Some (JsonBody (JObject [(''error'', JString ''Method not allowed'')]))\<rparr>"

section \<open>The chat component: \<^verbatim>\<open>send\<close>\<close>

text \<open>Lines 55 to 58: the expression bound to \<^verbatim>\<open>assistantText\<close>.\<close>

definition assistantText :: "json \<Rightarrow> completion" where
  "assistantText json =
     or_js
       (or_js
          (get (Inr (Val json)) ''output'')
          (and_js
             (and_js
                (isArray (get (Inr (Val json)) ''choices''))
                (index0 (get (Inr (Val json)) ''choices'')))
             (or_js
                (get (index0 (get (Inr (Val json)) ''choices'')) ''text'')
                (get_optional (get (index0 (get (Inr (Val json)) ''choices'')) ''message'')
                   ''content''))))
       (Inr (Val (JString (JSON_stringify json))))"

text \<open>Line 60: \<^verbatim>\<open>String(assistantText)\<close>, the text of the assistant's message.\<close>

definition normalizer :: "json \<Rightarrow> js_error + string" where
  "normalizer json = (case assistantText json of Inl err \<Rightarrow> Inl err | Inr v \<Rightarrow> String_js v)"

datatype role = User | Assistant

record chat_message =
  msg_role :: role
  msg_text :: string

record chat_state =
  input :: string
  messages :: "chat_message list"
  loading :: bool

text \<open>What \<^verbatim>\<open>send\<close> reads of the answer of \<^verbatim>\<open>/api/thesys\<close>.\<close>

record api_resp =
  ok :: bool
  api_text :: "js_error + string"
  api_json :: "js_error + json"

type_synonym api_fetch = "string \<Rightarrow> fetch_init \<Rightarrow> js_error + api_resp"

text \<open>
  What a call of \<^verbatim>\<open>send\<close> does, in order: the state setters it calls
  (\<^verbatim>\<open>setMessages\<close> always appends one message), the request it issues, what it logs.
\<close>

datatype effect =
    SetMessages chat_message
  | SetInput string
  | SetLoading bool
  | Fetch string fetch_init
  | ConsoleError string js_error

text \<open>The white space and line terminators \<^verbatim>\<open>trim\<close> strips, among code units below 256.\<close>

definition WhiteSpace :: "char \<Rightarrow> bool" where
  "WhiteSpace c \<longleftrightarrow>
     c = CHR 0x09 \<or> c = CHR 0x0A \<or> c = CHR 0x0B \<or> c = CHR 0x0C \<or> c = CHR 0x0D
     \<or> c = CHR 0x20 \<or> c = CHR 0xA0"

definition trim :: "string \<Rightarrow> string" where
  "trim s = rev (dropWhile WhiteSpace (rev (dropWhile WhiteSpace s)))"

definition api_init :: "string \<Rightarrow> fetch_init" where
  "api_init trimmed =
     \<lparr>init_method = ''POST'',
      init_headers = [(''Content-Type'', ''application/json'')],
      init_body = JSON_stringify (JObject [(''prompt'', JString trimmed)])\<rparr>"

text \<open>The \<^verbatim>\<open>try\<close> block, lines 40 to 60: the assistant's text, or what was thrown.\<close>

definition reply :: "api_fetch \<Rightarrow> string \<Rightarrow> js_error + string" where
  "reply fetch trimmed =
     (case fetch ''/api/thesys'' (api_init trimmed) of
        Inl err \<Rightarrow> Inl err
      | Inr res \<Rightarrow>
          if \<not> ok res
          then (case api_text res of
                  Inl err \<Rightarrow> Inl err
                | Inr errText \<Rightarrow>
                    Inl (Error (if errText = [] then ''Upstream error'' else errText)))
          else (case api_json res of
                  Inl err \<Rightarrow> Inl err
                | Inr json \<Rightarrow> normalizer json))"

definition send :: "api_fetch \<Rightarrow> string \<Rightarrow> effect list" where
  "send fetch inp =
     (let trimmed = trim inp in
      if trimmed = [] then []
      else
        [SetMessages \<lparr>msg_role = User, msg_text = trimmed\<rparr>,
         SetInput [],
         SetLoading True,
         Fetch ''/api/thesys'' (api_init trimmed)]
        @ (case reply fetch trimmed of
             Inr shown \<Rightarrow>
               [SetMessages \<lparr>msg_role = Assistant, msg_text = shown\<rparr>]
           | Inl err \<Rightarrow>
               [ConsoleError ''Error calling /api/thesys'' err,
                SetMessages \<lparr>msg_role = Assistant, msg_text = ''Error: '' @ err_message err\<rparr>])
        @ [SetLoading False])"

fun apply_effect :: "effect \<Rightarrow> chat_state \<Rightarrow> chat_state" where
  "apply_effect (SetMessages m) st = st\<lparr>messages := messages st @ [m]\<rparr>"
| "apply_effect (SetInput s) st = st\<lparr>input := s\<rparr>"
| "apply_effect (SetLoading b) st = st\<lparr>loading := b\<rparr>"
| "apply_effect (Fetch url init) st = st"
| "apply_effect (ConsoleError label err) st = st"

text \<open>The component's state once \<^verbatim>\<open>send\<close>, called on the current input, has finished.\<close>

definition rendered :: "api_fetch \<Rightarrow> chat_state \<Rightarrow> chat_state" where
  "rendered fetch st = fold apply_effect (send fetch (input st)) st"

section \<open>The extraction order, as the specification words it\<close>

text \<open>
  The specification names three places to look, in order, and a fallback: the top-level
  \<^verbatim>\<open>output\<close> field, the \<^verbatim>\<open>text\<close> field of the first element of the \<^verbatim>\<open>choices\<close> array, the
  \<^verbatim>\<open>content\<close> field of that element's \<^verbatim>\<open>message\<close>, and the serialization of the whole
  payload. The first place holding a non-empty (truthy) value is used.
\<close>

fun field :: "js_value \<Rightarrow> string \<Rightarrow> js_value" where
  "field (Val (JObject kvs)) name =
     (case map_of kvs name of None \<Rightarrow> Undefined | Some v \<Rightarrow> Val v)"
| "field v name = Undefined"

fun first_choice :: "json \<Rightarrow> js_value" where
  "first_choice json =
     (case field (Val json) ''choices'' of
        Val (JArray (x # xs)) \<Rightarrow> Val x
      | _ \<Rightarrow> Undefined)"

definition candidates :: "json \<Rightarrow> js_value list" where
  "candidates json =
     [field (Val json) ''output'',
      field (first_choice json) ''text'',
      field (field (first_choice json) ''message'') ''content'']"

definition first_resolved :: "json \<Rightarrow> js_value" where
  "first_resolved json =
     (case filter truthy (candidates json) of
        [] \<Rightarrow> Val (JString (JSON_stringify json))
      | v # rest \<Rightarrow> v)"

section \<open>Properties of the proxy route\<close>

subsection \<open>The three branches of the handler\<close>

lemma handler_method_not_allowed:
  "req_method rq \<noteq> ''POST'' \<Longrightarrow>
   handler env fetch rq = \<lparr>response = method_not_allowed_response, calls = [], console = []\<rparr>"
  by (simp add: handler_def method_not_allowed_response_def res_json_def status_def
        setHeader_def fresh_res_def)

lemma handler_not_configured:
  "req_method rq = ''POST'' \<Longrightarrow> unset (THESYS_API_KEY env) \<or> unset (THESYS_API_URL env) \<Longrightarrow>
   handler env fetch rq =
     \<lparr>response = error_response 500 ''Thesys API key or URL not configured on server'',
      calls = [], console = []\<rparr>"
  by (simp add: handler_def error_response_def res_json_def status_def fresh_res_def)

lemma handler_forward:
  "req_method rq = ''POST'' \<Longrightarrow> THESYS_API_KEY env = Some key \<Longrightarrow> key \<noteq> [] \<Longrightarrow>
   THESYS_API_URL env = Some url \<Longrightarrow> url \<noteq> [] \<Longrightarrow>
   handler env fetch rq =
     (case forward fetch url key (req_body rq) fresh_res of
        Inr r \<Rightarrow> \<lparr>response = r, calls = [(url, upstream_init key (req_body rq))], console = []\<rparr>
      | Inl err \<Rightarrow>
          \<lparr>response = error_response 500 ''Error contacting Thesys API'',
           calls = [(url, upstream_init key (req_body rq))],
           console = [(''Error proxying to Thesys:'', err)]\<rparr>)"
  by (simp add: handler_def error_response_def res_json_def status_def fresh_res_def
           split: sum.splits)

lemma relay_json:
  "includes_str (contentType up) ''application/json'' \<Longrightarrow> up_json up = Inr data \<Longrightarrow>
   relay up fresh_res =
     Inr \<lparr>res_headers = [], res_statusCode = up_status up, res_body = Some (JsonBody data)\<rparr>"
  by (simp add: relay_def res_json_def status_def fresh_res_def)

lemma relay_text:
  "\<not> includes_str (contentType up) ''application/json'' \<Longrightarrow> up_text up = Inr txt \<Longrightarrow>
   relay up fresh_res =
     Inr \<lparr>res_headers = [(''content-type'', HString (contentType up))],
          res_statusCode = up_status up, res_body = Some (TextBody txt)\<rparr>"
  by (simp add: relay_def res_send_def status_def setHeader_def fresh_res_def)

lemma relay_throws:
  "relay up r = Inl err \<longleftrightarrow>
     (if includes_str (contentType up) ''application/json''
      then up_json up = Inl err else up_text up = Inl err)"
  by (simp add: relay_def split: sum.splits)

lemma forward_throws:
  "forward fetch url key body r = Inl err \<longleftrightarrow>
     fetch url (upstream_init key body) = Inl err
     \<or> (\<exists>up. fetch url (upstream_init key body) = Inr up \<and> relay up r = Inl err)"
  by (auto simp add: forward_def split: sum.splits)

subsection \<open>The credential stays on the server\<close>

text \<open>
  C1. Take two runs of the handler on the same request, with the same setting of the
  upstream URL and the same transport, that differ only in the bearer credential (set and
  non-empty in both), the transport answering the two outbound requests alike. Then the
  two responses are equal, headers and body, and so are the two server logs. Moreover
  every response is either one of the three responses the handler writes by itself, which
  are fixed and mention no credential (405, 500 for missing configuration, 500 for a
  failed upstream contact), or what \<open>relay\<close> builds from the upstream's answer alone; so
  no error response of the handler carries the credential.
\<close>

theorem credential_noninterference:
  assumes "k1 \<noteq> []" and "k2 \<noteq> []"
    and "\<And>url. fetch url (upstream_init k1 (req_body rq)) = fetch url (upstream_init k2 (req_body rq))"
  shows "response (handler \<lparr>THESYS_API_KEY = Some k1, THESYS_API_URL = u\<rparr> fetch rq)
           = response (handler \<lparr>THESYS_API_KEY = Some k2, THESYS_API_URL = u\<rparr> fetch rq)
       \<and> console (handler \<lparr>THESYS_API_KEY = Some k1, THESYS_API_URL = u\<rparr> fetch rq)
           = console (handler \<lparr>THESYS_API_KEY = Some k2, THESYS_API_URL = u\<rparr> fetch rq)
       \<and> (response (handler \<lparr>THESYS_API_KEY = Some k1, THESYS_API_URL = u\<rparr> fetch rq)
             \<in> {method_not_allowed_response,
                 error_response 500 ''Thesys API key or URL not configured on server'',
                 error_response 500 ''Error contacting Thesys API''}
          \<or> (\<exists>url up. fetch url (upstream_init k1 (req_body rq)) = Inr up
                \<and> relay up fresh_res
                    = Inr (response (handler \<lparr>THESYS_API_KEY = Some k1, THESYS_API_URL = u\<rparr> fetch rq))))"
proof (cases "req_method rq = ''POST''")
  case False
  then show ?thesis by (simp add: handler_method_not_allowed)
next
  case post: True
  show ?thesis
  proof (cases "unset u")
    case True
    with post show ?thesis by (simp add: handler_not_configured)
  next
    case False
    then obtain url where u: "u = Some url" and url: "url \<noteq> []"
      by (cases u) auto
    have same: "forward fetch url k1 (req_body rq) fresh_res
                  = forward fetch url k2 (req_body rq) fresh_res"
      by (simp add: forward_def assms(3))
    show ?thesis
    proof (cases "forward fetch url k2 (req_body rq) fresh_res")
      case (Inl err)
      with same post u url assms(1,2) show ?thesis
        by (simp add: handler_forward)
    next
      case (Inr r)
      with same have "forward fetch url k1 (req_body rq) fresh_res = Inr r" by simp
      moreover from this obtain up where "fetch url (upstream_init k1 (req_body rq)) = Inr up"
        and "relay up fresh_res = Inr r"
        by (auto simp add: forward_def split: sum.splits)
      ultimately show ?thesis
        using Inr post u url assms(1,2) by (auto simp add: handler_forward)
    qed
  qed
qed

text \<open>
  Two credentials, a transport whose connection fails: the same generic 500 both times.
\<close>

theorem credential_noninterference_witness:
  "response (handler
      \<lparr>THESYS_API_KEY = Some ''sk-live-A'', THESYS_API_URL = Some ''https://api.thesys.ai/v1/generate''\<rparr>
      (\<lambda>url init. Inl (TypeError ''fetch failed''))
      \<lparr>req_method = ''POST'', req_body = JObject [(''prompt'', JString ''hi'')]\<rparr>)
   = response (handler
      \<lparr>THESYS_API_KEY = Some ''sk-live-B'', THESYS_API_URL = Some ''https://api.thesys.ai/v1/generate''\<rparr>
      (\<lambda>url init. Inl (TypeError ''fetch failed''))
      \<lparr>req_method = ''POST'', req_body = JObject [(''prompt'', JString ''hi'')]\<rparr>)
   \<and> response (handler
      \<lparr>THESYS_API_KEY = Some ''sk-live-A'', THESYS_API_URL = Some ''https://api.thesys.ai/v1/generate''\<rparr>
      (\<lambda>url init. Inl (TypeError ''fetch failed''))
      \<lparr>req_method = ''POST'', req_body = JObject [(''prompt'', JString ''hi'')]\<rparr>)
   = error_response 500 ''Error contacting Thesys API''"
proof -
  have "response (handler
      \<lparr>THESYS_API_KEY = Some ''sk-live-A'', THESYS_API_URL = Some ''https://api.thesys.ai/v1/generate''\<rparr>
      (\<lambda>url init. Inl (TypeError ''fetch failed''))
      \<lparr>req_method = ''POST'', req_body = JObject [(''prompt'', JString ''hi'')]\<rparr>)
   = response (handler
      \<lparr>THESYS_API_KEY = Some ''sk-live-B'', THESYS_API_URL = Some ''https://api.thesys.ai/v1/generate''\<rparr>
      (\<lambda>url init. Inl (TypeError ''fetch failed''))
      \<lparr>req_method = ''POST'', req_body = JObject [(''prompt'', JString ''hi'')]\<rparr>)"
    using credential_noninterference
      [of "''sk-live-A''" "''sk-live-B''" "\<lambda>url init. Inl (TypeError ''fetch failed'')"
          "\<lparr>req_method = ''POST'', req_body = JObject [(''prompt'', JString ''hi'')]\<rparr>"
          "Some ''https://api.thesys.ai/v1/generate''"]
    by simp
  moreover have "response (handler
      \<lparr>THESYS_API_KEY = Some ''sk-live-B'', THESYS_API_URL = Some ''https://api.thesys.ai/v1/generate''\<rparr>
      (\<lambda>url init. Inl (TypeError ''fetch failed''))
      \<lparr>req_method = ''POST'', req_body = JObject [(''prompt'', JString ''hi'')]\<rparr>)
   = error_response 500 ''Error contacting Thesys API''"
    by (simp add: handler_forward forward_def)
  ultimately show ?thesis by simp
qed

subsection \<open>Relaying the upstream response\<close>

text \<open>
  C2. A POST with both variables set, the upstream call having resolved to a response.
  If the content type the handler reads includes \<^verbatim>\<open>application/json\<close> and the body
  parses, the handler answers with the upstream's status and the parsed value, unchanged,
  as a JSON body. Otherwise, if the body reads as text, it answers with the upstream's
  status, that text, and the header \<^verbatim>\<open>content-type\<close> set to the content type it read,
  which is the upstream's own header value whenever the upstream sent one.
\<close>

theorem upstream_response_relayed:
  assumes "req_method rq = ''POST''"
    and "THESYS_API_KEY env = Some key" and "key \<noteq> []"
    and "THESYS_API_URL env = Some url" and "url \<noteq> []"
    and "fetch url (upstream_init key (req_body rq)) = Inr up"
  shows "(includes_str (contentType up) ''application/json'' \<longrightarrow>
            (\<forall>data. up_json up = Inr data \<longrightarrow>
               response (handler env fetch rq) =
                 \<lparr>res_headers = [], res_statusCode = up_status up,
                  res_body = Some (JsonBody data)\<rparr>))
       \<and> (\<not> includes_str (contentType up) ''application/json'' \<longrightarrow>
            (\<forall>txt. up_text up = Inr txt \<longrightarrow>
               response (handler env fetch rq) =
                 \<lparr>res_headers = [(''content-type'', HString (contentType up))],
                  res_statusCode = up_status up,
                  res_body = Some (TextBody txt)\<rparr>))
       \<and> (\<forall>c. up_content_type up = Some c \<longrightarrow> contentType up = c)"
  using assms
  by (simp add: handler_forward forward_def relay_json relay_text contentType_def)

text \<open>
  The two examples of the specification: a JSON answer \<^verbatim>\<open>{"output":"hi"}\<close> and a
  \<^verbatim>\<open>text/plain\<close> answer, both with status 200.
\<close>

theorem upstream_response_relayed_witness:
  "response (handler \<lparr>THESYS_API_KEY = Some ''sk-1'', THESYS_API_URL = Some ''https://api.thesys.ai/v1/generate''\<rparr>
      (\<lambda>url init. Inr \<lparr>up_status = 200, up_content_type = Some ''application/json'',
                         up_json = Inr (JObject [(''output'', JString ''hi'')]),
                         up_text = Inr ''{}''\<rparr>)
      \<lparr>req_method = ''POST'', req_body = JObject [(''prompt'', JString ''hi'')]\<rparr>)
     = \<lparr>res_headers = [], res_statusCode = 200,
        res_body = Some (JsonBody (JObject [(''output'', JString ''hi'')]))\<rparr>
   \<and> response (handler \<lparr>THESYS_API_KEY = Some ''sk-1'', THESYS_API_URL = Some ''https://api.thesys.ai/v1/generate''\<rparr>
      (\<lambda>url init. Inr \<lparr>up_status = 200, up_content_type = Some ''text/plain'',
                         up_json = Inl (SyntaxError ''Unexpected token p in JSON at position 0''),
                         up_text = Inr ''plain text''\<rparr>)
      \<lparr>req_method = ''POST'', req_body = JObject [(''prompt'', JString ''hi'')]\<rparr>)
     = \<lparr>res_headers = [(''content-type'', HString ''text/plain'')], res_statusCode = 200,
        res_body = Some (TextBody ''plain text'')\<rparr>"
  using upstream_response_relayed
    [of "\<lparr>req_method = ''POST'', req_body = JObject [(''prompt'', JString ''hi'')]\<rparr>" "\<lparr>THESYS_API_KEY = Some ''sk-1'', THESYS_API_URL = Some ''https://api.thesys.ai/v1/generate''\<rparr>"
        "''sk-1''" "''https://api.thesys.ai/v1/generate''"
        "\<lambda>url init. Inr \<lparr>up_status = 200, up_content_type = Some ''application/json'',
                         up_json = Inr (JObject [(''output'', JString ''hi'')]),
                         up_text = Inr ''{}''\<rparr>"
        "\<lparr>up_status = 200, up_content_type = Some ''application/json'',
                         up_json = Inr (JObject [(''output'', JString ''hi'')]),
                         up_text = Inr ''{}''\<rparr>"]
    upstream_response_relayed
    [of "\<lparr>req_method = ''POST'', req_body = JObject [(''prompt'', JString ''hi'')]\<rparr>" "\<lparr>THESYS_API_KEY = Some ''sk-1'', THESYS_API_URL = Some ''https://api.thesys.ai/v1/generate''\<rparr>"
        "''sk-1''" "''https://api.thesys.ai/v1/generate''"
        "\<lambda>url init. Inr \<lparr>up_status = 200, up_content_type = Some ''text/plain'',
                         up_json = Inl (SyntaxError ''Unexpected token p in JSON at position 0''),
                         up_text = Inr ''plain text''\<rparr>"
        "\<lparr>up_status = 200, up_content_type = Some ''text/plain'',
                         up_json = Inl (SyntaxError ''Unexpected token p in JSON at position 0''),
                         up_text = Inr ''plain text''\<rparr>"]
  by (simp add: contentType_def)

text \<open>
  C4, as the code has it. A POST with both variables set, the upstream call having
  resolved to a response: when the body is read without error the handler answers with
  the upstream's status, whatever it is, 2xx or not, and with the upstream's body; the
  fixed 500 is the answer only when reading the body throws. A status outside 2xx is not
  turned into the generic 500.
\<close>

theorem upstream_status_passed_through:
  assumes "req_method rq = ''POST''"
    and "THESYS_API_KEY env = Some key" and "key \<noteq> []"
    and "THESYS_API_URL env = Some url" and "url \<noteq> []"
    and "fetch url (upstream_init key (req_body rq)) = Inr up"
  shows "(\<forall>data. includes_str (contentType up) ''application/json'' \<and> up_json up = Inr data \<longrightarrow>
            res_statusCode (response (handler env fetch rq)) = up_status up
            \<and> res_body (response (handler env fetch rq)) = Some (JsonBody data))
       \<and> (\<forall>txt. \<not> includes_str (contentType up) ''application/json'' \<and> up_text up = Inr txt \<longrightarrow>
            res_statusCode (response (handler env fetch rq)) = up_status up
            \<and> res_body (response (handler env fetch rq)) = Some (TextBody txt))
       \<and> (\<forall>err. (if includes_str (contentType up) ''application/json''
                  then up_json up = Inl err else up_text up = Inl err) \<longrightarrow>
            response (handler env fetch rq) = error_response 500 ''Error contacting Thesys API'')"
proof -
  have run: "handler env fetch rq =
     (case relay up fresh_res of
        Inr r \<Rightarrow> \<lparr>response = r, calls = [(url, upstream_init key (req_body rq))], console = []\<rparr>
      | Inl err \<Rightarrow>
          \<lparr>response = error_response 500 ''Error contacting Thesys API'',
           calls = [(url, upstream_init key (req_body rq))],
           console = [(''Error proxying to Thesys:'', err)]\<rparr>)"
    using assms by (simp add: handler_forward forward_def)
  show ?thesis
  proof (intro conjI allI impI)
    fix err
    assume "if includes_str (contentType up) ''application/json''
            then up_json up = Inl err else up_text up = Inl err"
    then have "relay up fresh_res = Inl err"
      by (simp add: relay_throws)
    then show "response (handler env fetch rq) = error_response 500 ''Error contacting Thesys API''"
      by (simp add: run)
  qed (simp_all add: run relay_json relay_text)
qed

text \<open>An upstream 429 with an HTML body reaches the client as a 429 with that body.\<close>

theorem upstream_status_passed_through_witness:
  "res_statusCode (response (handler \<lparr>THESYS_API_KEY = Some ''sk-1'', THESYS_API_URL = Some ''https://api.thesys.ai/v1/generate''\<rparr>
      (\<lambda>url init. Inr \<lparr>up_status = 429, up_content_type = Some ''text/html; charset=utf-8'',
                         up_json = Inl (SyntaxError ''Unexpected token < in JSON at position 0''),
                         up_text = Inr ''<h1>Too Many Requests</h1>''\<rparr>)
      \<lparr>req_method = ''POST'', req_body = JObject [(''prompt'', JString ''hi'')]\<rparr>)) = 429
   \<and> res_body (response (handler \<lparr>THESYS_API_KEY = Some ''sk-1'', THESYS_API_URL = Some ''https://api.thesys.ai/v1/generate''\<rparr>
      (\<lambda>url init. Inr \<lparr>up_status = 429, up_content_type = Some ''text/html; charset=utf-8'',
                         up_json = Inl (SyntaxError ''Unexpected token < in JSON at position 0''),
                         up_text = Inr ''<h1>Too Many Requests</h1>''\<rparr>)
      \<lparr>req_method = ''POST'', req_body = JObject [(''prompt'', JString ''hi'')]\<rparr>))
     = Some (TextBody ''<h1>Too Many Requests</h1>'')"
  using upstream_status_passed_through
    [of "\<lparr>req_method = ''POST'', req_body = JObject [(''prompt'', JString ''hi'')]\<rparr>" "\<lparr>THESYS_API_KEY = Some ''sk-1'', THESYS_API_URL = Some ''https://api.thesys.ai/v1/generate''\<rparr>"
        "''sk-1''" "''https://api.thesys.ai/v1/generate''"
        "\<lambda>url init. Inr \<lparr>up_status = 429, up_content_type = Some ''text/html; charset=utf-8'',
                         up_json = Inl (SyntaxError ''Unexpected token < in JSON at position 0''),
                         up_text = Inr ''<h1>Too Many Requests</h1>''\<rparr>"
        "\<lparr>up_status = 429, up_content_type = Some ''text/html; charset=utf-8'',
                         up_json = Inl (SyntaxError ''Unexpected token < in JSON at position 0''),
                         up_text = Inr ''<h1>Too Many Requests</h1>''\<rparr>"]
  by (simp add: contentType_def)

text \<open>
  C4, as worded, fails: the upstream answers 404 with a JSON body, the call does not
  throw, and the client receives that 404 and that body, not a generic 500.
\<close>

theorem non_2xx_not_generic_500_counterexample:
  "\<not> (200 \<le> up_status \<lparr>up_status = 404, up_content_type = Some ''application/json'',
                         up_json = Inr (JObject [(''detail'', JString ''no such model'')]),
                         up_text = Inr ''{}''\<rparr>
        \<and> up_status \<lparr>up_status = 404, up_content_type = Some ''application/json'',
                         up_json = Inr (JObject [(''detail'', JString ''no such model'')]),
                         up_text = Inr ''{}''\<rparr> < 300)
   \<and> response (handler \<lparr>THESYS_API_KEY = Some ''sk-1'', THESYS_API_URL = Some ''https://api.thesys.ai/v1/generate''\<rparr>
      (\<lambda>url init. Inr \<lparr>up_status = 404, up_content_type = Some ''application/json'',
                         up_json = Inr (JObject [(''detail'', JString ''no such model'')]),
                         up_text = Inr ''{}''\<rparr>)
      \<lparr>req_method = ''POST'', req_body = JObject [(''prompt'', JString ''hi'')]\<rparr>)
     = \<lparr>res_headers = [], res_statusCode = 404,
        res_body = Some (JsonBody (JObject [(''detail'', JString ''no such model'')]))\<rparr>
   \<and> res_statusCode (response (handler \<lparr>THESYS_API_KEY = Some ''sk-1'', THESYS_API_URL = Some ''https://api.thesys.ai/v1/generate''\<rparr>
      (\<lambda>url init. Inr \<lparr>up_status = 404, up_content_type = Some ''application/json'',
                         up_json = Inr (JObject [(''detail'', JString ''no such model'')]),
                         up_text = Inr ''{}''\<rparr>)
      \<lparr>req_method = ''POST'', req_body = JObject [(''prompt'', JString ''hi'')]\<rparr>)) \<noteq> 500"
  by (simp add: handler_def forward_def relay_def contentType_def res_json_def status_def
        fresh_res_def)

subsection \<open>Refusals and failures\<close>

text \<open>
  C5. Whatever the method, if it is not POST the handler answers 405 with the body
  \<^verbatim>\<open>{error: 'Method not allowed'}\<close>, sets the header \<^verbatim>\<open>Allow\<close> to \<^verbatim>\<open>['POST']\<close>, and calls
  the upstream not once, whatever the configuration and the transport.
\<close>

theorem non_post_method_not_allowed:
  assumes "req_method rq \<noteq> ''POST''"
  shows "res_statusCode (response (handler env fetch rq)) = 405
       \<and> res_headers (response (handler env fetch rq)) = [(''Allow'', HArray [''POST''])]
       \<and> res_body (response (handler env fetch rq))
           = Some (JsonBody (JObject [(''error'', JString ''Method not allowed'')]))
       \<and> calls (handler env fetch rq) = []"
  using assms by (simp add: handler_method_not_allowed method_not_allowed_response_def)

theorem non_post_method_not_allowed_witness:
  "req_method \<lparr>req_method = ''GET'', req_body = JNull\<rparr> \<noteq> ''POST''
   \<and> res_statusCode (response (handler \<lparr>THESYS_API_KEY = Some ''sk-1'', THESYS_API_URL = Some ''https://api.thesys.ai/v1/generate''\<rparr>
         (\<lambda>url init. Inl (TypeError ''fetch failed''))
         \<lparr>req_method = ''GET'', req_body = JNull\<rparr>)) = 405
   \<and> calls (handler \<lparr>THESYS_API_KEY = Some ''sk-1'', THESYS_API_URL = Some ''https://api.thesys.ai/v1/generate''\<rparr>
         (\<lambda>url init. Inl (TypeError ''fetch failed''))
         \<lparr>req_method = ''GET'', req_body = JNull\<rparr>) = []"
  using non_post_method_not_allowed
    [of "\<lparr>req_method = ''GET'', req_body = JNull\<rparr>" "\<lparr>THESYS_API_KEY = Some ''sk-1'', THESYS_API_URL = Some ''https://api.thesys.ai/v1/generate''\<rparr>"
        "\<lambda>url init. Inl (TypeError ''fetch failed'')"]
  by simp

text \<open>
  C6. For a POST, if the key or the URL is not set or is the empty string, the handler
  answers 500 with the body \<^verbatim>\<open>{error: 'Thesys API key or URL not configured on server'}\<close>
  and calls the upstream not once.
\<close>

theorem missing_configuration_error:
  assumes "req_method rq = ''POST''"
    and "unset (THESYS_API_KEY env) \<or> unset (THESYS_API_URL env)"
  shows "response (handler env fetch rq)
           = error_response 500 ''Thesys API key or URL not configured on server''
       \<and> res_statusCode (response (handler env fetch rq)) = 500
       \<and> calls (handler env fetch rq) = []"
  using assms by (simp add: handler_not_configured error_response_def)

theorem missing_configuration_error_witness:
  "req_method \<lparr>req_method = ''POST'', req_body = JObject [(''prompt'', JString ''hi'')]\<rparr> = ''POST''
   \<and> unset (THESYS_API_KEY \<lparr>THESYS_API_KEY = Some [], THESYS_API_URL = Some ''https://api.thesys.ai/v1/generate''\<rparr>)
   \<and> response (handler
         \<lparr>THESYS_API_KEY = Some [], THESYS_API_URL = Some ''https://api.thesys.ai/v1/generate''\<rparr>
         (\<lambda>url init. Inl (TypeError ''fetch failed''))
         \<lparr>req_method = ''POST'', req_body = JObject [(''prompt'', JString ''hi'')]\<rparr>)
       = error_response 500 ''Thesys API key or URL not configured on server''
   \<and> calls (handler
         \<lparr>THESYS_API_KEY = Some [], THESYS_API_URL = Some ''https://api.thesys.ai/v1/generate''\<rparr>
         (\<lambda>url init. Inl (TypeError ''fetch failed''))
         \<lparr>req_method = ''POST'', req_body = JObject [(''prompt'', JString ''hi'')]\<rparr>) = []"
  using missing_configuration_error
    [of "\<lparr>req_method = ''POST'', req_body = JObject [(''prompt'', JString ''hi'')]\<rparr>"
        "\<lparr>THESYS_API_KEY = Some [], THESYS_API_URL = Some ''https://api.thesys.ai/v1/generate''\<rparr>"
        "\<lambda>url init. Inl (TypeError ''fetch failed'')"]
  by simp

text \<open>
  C7. For a POST with both variables set, if the upstream call throws, or it resolves
  and reading the body (as JSON when the content type includes \<^verbatim>\<open>application/json\<close>, as
  text otherwise) throws, the handler answers 500 with the fixed body
  \<^verbatim>\<open>{error: 'Error contacting Thesys API'}\<close>, in which the error thrown does not occur; the
  error goes to the server log only.
\<close>

theorem upstream_exception_generic_500:
  assumes "req_method rq = ''POST''"
    and "THESYS_API_KEY env = Some key" and "key \<noteq> []"
    and "THESYS_API_URL env = Some url" and "url \<noteq> []"
    and "fetch url (upstream_init key (req_body rq)) = Inl err
         \<or> (\<exists>up. fetch url (upstream_init key (req_body rq)) = Inr up
                \<and> (if includes_str (contentType up) ''application/json''
                    then up_json up = Inl err else up_text up = Inl err))"
  shows "response (handler env fetch rq) = error_response 500 ''Error contacting Thesys API''
       \<and> console (handler env fetch rq) = [(''Error proxying to Thesys:'', err)]"
proof -
  from assms(6) have "forward fetch url key (req_body rq) fresh_res = Inl err"
    by (auto simp add: forward_throws relay_throws)
  with assms(1-5) show ?thesis
    by (simp add: handler_forward)
qed

theorem upstream_exception_generic_500_witness:
  "response (handler \<lparr>THESYS_API_KEY = Some ''sk-1'', THESYS_API_URL = Some ''https://api.thesys.ai/v1/generate''\<rparr>
      (\<lambda>url init. Inl (TypeError ''connect ECONNREFUSED 10.0.0.7:443''))
      \<lparr>req_method = ''POST'', req_body = JObject [(''prompt'', JString ''hi'')]\<rparr>)
     = error_response 500 ''Error contacting Thesys API''
   \<and> console (handler \<lparr>THESYS_API_KEY = Some ''sk-1'', THESYS_API_URL = Some ''https://api.thesys.ai/v1/generate''\<rparr>
      (\<lambda>url init. Inl (TypeError ''connect ECONNREFUSED 10.0.0.7:443''))
      \<lparr>req_method = ''POST'', req_body = JObject [(''prompt'', JString ''hi'')]\<rparr>)
     = [(''Error proxying to Thesys:'', TypeError ''connect ECONNREFUSED 10.0.0.7:443'')]"
  using upstream_exception_generic_500
    [of "\<lparr>req_method = ''POST'', req_body = JObject [(''prompt'', JString ''hi'')]\<rparr>" "\<lparr>THESYS_API_KEY = Some ''sk-1'', THESYS_API_URL = Some ''https://api.thesys.ai/v1/generate''\<rparr>"
        "''sk-1''" "''https://api.thesys.ai/v1/generate''"
        "\<lambda>url init. Inl (TypeError ''connect ECONNREFUSED 10.0.0.7:443'')"
        "TypeError ''connect ECONNREFUSED 10.0.0.7:443''"]
  by simp

subsection \<open>The outbound request\<close>

text \<open>
  C8. For a POST with both variables set, the handler applies the transport once, to the
  configured URL and to an \<^verbatim>\<open>init\<close> with method POST, the header
  \<^verbatim>\<open>Content-Type: application/json\<close>, the header \<^verbatim>\<open>Authorization\<close> set to \<^verbatim>\<open>Bearer\<close>, a space
  and the key, and as body \<^verbatim>\<open>JSON.stringify\<close> of the inbound body, whatever that body is.
  That request is the one logged as issued; the response and the server log are what the
  transport's answer to that very request makes them; and the transport is consulted
  nowhere else: one that answers this request alike gives the same run.
\<close>

theorem upstream_call_shape:
  assumes "req_method rq = ''POST''"
    and "THESYS_API_KEY env = Some key" and "key \<noteq> []"
    and "THESYS_API_URL env = Some url" and "url \<noteq> []"
  shows "calls (handler env fetch rq) =
           [(url, \<lparr>init_method = ''POST'',
                   init_headers = [(''Content-Type'', ''application/json''),
                                   (''Authorization'', ''Bearer '' @ key)],
                   init_body = JSON_stringify (req_body rq)\<rparr>)]
       \<and> response (handler env fetch rq) =
           (case fetch url \<lparr>init_method = ''POST'',
                            init_headers = [(''Content-Type'', ''application/json''),
                                            (''Authorization'', ''Bearer '' @ key)],
                            init_body = JSON_stringify (req_body rq)\<rparr> of
              Inl err \<Rightarrow> error_response 500 ''Error contacting Thesys API''
            | Inr up \<Rightarrow>
                (case relay up fresh_res of
                   Inl err \<Rightarrow> error_response 500 ''Error contacting Thesys API''
                 | Inr r \<Rightarrow> r))
       \<and> console (handler env fetch rq) =
           (case fetch url \<lparr>init_method = ''POST'',
                            init_headers = [(''Content-Type'', ''application/json''),
                                            (''Authorization'', ''Bearer '' @ key)],
                            init_body = JSON_stringify (req_body rq)\<rparr> of
              Inl err \<Rightarrow> [(''Error proxying to Thesys:'', err)]
            | Inr up \<Rightarrow>
                (case relay up fresh_res of
                   Inl err \<Rightarrow> [(''Error proxying to Thesys:'', err)]
                 | Inr r \<Rightarrow> []))
       \<and> (\<forall>fetch'. fetch' url \<lparr>init_method = ''POST'',
                            init_headers = [(''Content-Type'', ''application/json''),
                                            (''Authorization'', ''Bearer '' @ key)],
                            init_body = JSON_stringify (req_body rq)\<rparr>
                      = fetch url \<lparr>init_method = ''POST'',
                            init_headers = [(''Content-Type'', ''application/json''),
                                            (''Authorization'', ''Bearer '' @ key)],
                            init_body = JSON_stringify (req_body rq)\<rparr>
              \<longrightarrow> handler env fetch' rq = handler env fetch rq)"
proof -
  have run: "handler env f rq =
     (case f url (upstream_init key (req_body rq)) of
        Inl err \<Rightarrow>
          \<lparr>response = error_response 500 ''Error contacting Thesys API'',
           calls = [(url, upstream_init key (req_body rq))],
           console = [(''Error proxying to Thesys:'', err)]\<rparr>
      | Inr up \<Rightarrow>
          (case relay up fresh_res of
             Inl err \<Rightarrow>
               \<lparr>response = error_response 500 ''Error contacting Thesys API'',
                calls = [(url, upstream_init key (req_body rq))],
                console = [(''Error proxying to Thesys:'', err)]\<rparr>
           | Inr r \<Rightarrow>
               \<lparr>response = r, calls = [(url, upstream_init key (req_body rq))],
                console = []\<rparr>))" for f
    using assms by (simp add: handler_forward forward_def split: sum.splits)
  have init: "upstream_init key (req_body rq) =
     \<lparr>init_method = ''POST'',
      init_headers = [(''Content-Type'', ''application/json''),
                      (''Authorization'', ''Bearer '' @ key)],
      init_body = JSON_stringify (req_body rq)\<rparr>"
    by (simp add: upstream_init_def)
  show ?thesis
    unfolding init [symmetric]
    by (simp add: run split: sum.splits)
qed

text \<open>
  A transport that resolves for exactly one request and rejects every other one: the
  handler gets its 200 through, so what it sent is that request, with the overflowed
  number of the inbound body serialized as \<^verbatim>\<open>null\<close>.
\<close>

theorem upstream_call_shape_witness:
  "calls (handler \<lparr>THESYS_API_KEY = Some ''sk-1'', THESYS_API_URL = Some ''https://api.thesys.ai/v1/generate''\<rparr>
      (\<lambda>url init.
         if url = ''https://api.thesys.ai/v1/generate''
            \<and> init = \<lparr>init_method = ''POST'',
                      init_headers = [(''Content-Type'', ''application/json''),
                                      (''Authorization'', ''Bearer sk-1'')],
                      init_body = ''{'' @ [CHR 0x22] @ ''prompt'' @ [CHR 0x22] @ '':''
                                  @ [CHR 0x22] @ ''hi'' @ [CHR 0x22] @ '',''
                                  @ [CHR 0x22] @ ''max_tokens'' @ [CHR 0x22] @ '':null}''\<rparr>
         then Inr \<lparr>up_status = 200, up_content_type = Some ''application/json'',
                   up_json = Inr (JObject [(''output'', JString ''hello'')]),
                   up_text = Inr ''{}''\<rparr>
         else Inl (TypeError ''fetch failed''))
      \<lparr>req_method = ''POST'',
       req_body = JObject [(''prompt'', JString ''hi''), (''max_tokens'', JNumber ''Infinity'')]\<rparr>)
   = [(''https://api.thesys.ai/v1/generate'',
       \<lparr>init_method = ''POST'',
        init_headers = [(''Content-Type'', ''application/json''),
                        (''Authorization'', ''Bearer sk-1'')],
        init_body = ''{'' @ [CHR 0x22] @ ''prompt'' @ [CHR 0x22] @ '':''
                    @ [CHR 0x22] @ ''hi'' @ [CHR 0x22] @ '',''
                    @ [CHR 0x22] @ ''max_tokens'' @ [CHR 0x22] @ '':null}''\<rparr>)]
   \<and> response (handler \<lparr>THESYS_API_KEY = Some ''sk-1'', THESYS_API_URL = Some ''https://api.thesys.ai/v1/generate''\<rparr>
      (\<lambda>url init.
         if url = ''https://api.thesys.ai/v1/generate''
            \<and> init = \<lparr>init_method = ''POST'',
                      init_headers = [(''Content-Type'', ''application/json''),
                                      (''Authorization'', ''Bearer sk-1'')],
                      init_body = ''{'' @ [CHR 0x22] @ ''prompt'' @ [CHR 0x22] @ '':''
                                  @ [CHR 0x22] @ ''hi'' @ [CHR 0x22] @ '',''
                                  @ [CHR 0x22] @ ''max_tokens'' @ [CHR 0x22] @ '':null}''\<rparr>
         then Inr \<lparr>up_status = 200, up_content_type = Some ''application/json'',
                   up_json = Inr (JObject [(''output'', JString ''hello'')]),
                   up_text = Inr ''{}''\<rparr>
         else Inl (TypeError ''fetch failed''))
      \<lparr>req_method = ''POST'',
       req_body = JObject [(''prompt'', JString ''hi''), (''max_tokens'', JNumber ''Infinity'')]\<rparr>)
   = \<lparr>res_headers = [], res_statusCode = 200,
      res_body = Some (JsonBody (JObject [(''output'', JString ''hello'')]))\<rparr>"
proof -
  define f :: fetch where "f = (\<lambda>url init.
         if url = ''https://api.thesys.ai/v1/generate''
            \<and> init = \<lparr>init_method = ''POST'',
                      init_headers = [(''Content-Type'', ''application/json''),
                                      (''Authorization'', ''Bearer sk-1'')],
                      init_body = ''{'' @ [CHR 0x22] @ ''prompt'' @ [CHR 0x22] @ '':''
                                  @ [CHR 0x22] @ ''hi'' @ [CHR 0x22] @ '',''
                                  @ [CHR 0x22] @ ''max_tokens'' @ [CHR 0x22] @ '':null}''\<rparr>
         then Inr \<lparr>up_status = 200, up_content_type = Some ''application/json'',
                   up_json = Inr (JObject [(''output'', JString ''hello'')]),
                   up_text = Inr ''{}''\<rparr>
         else Inl (TypeError ''fetch failed''))"
  define rq where "rq = \<lparr>req_method = ''POST'',
       req_body = JObject [(''prompt'', JString ''hi''), (''max_tokens'', JNumber ''Infinity'')]\<rparr>"
  define init where "init = \<lparr>init_method = ''POST'',
        init_headers = [(''Content-Type'', ''application/json''),
                        (''Authorization'', ''Bearer sk-1'')],
        init_body = ''{'' @ [CHR 0x22] @ ''prompt'' @ [CHR 0x22] @ '':''
                    @ [CHR 0x22] @ ''hi'' @ [CHR 0x22] @ '',''
                    @ [CHR 0x22] @ ''max_tokens'' @ [CHR 0x22] @ '':null}''\<rparr>"
  have sent: "\<lparr>init_method = ''POST'',
                init_headers = [(''Content-Type'', ''application/json''),
                                (''Authorization'', ''Bearer '' @ ''sk-1'')],
                init_body = JSON_stringify (req_body rq)\<rparr> = init"
    by (simp add: rq_def init_def quote_def quote_char_def non_finite_def)
  have answer: "f ''https://api.thesys.ai/v1/generate'' init = Inr \<lparr>up_status = 200, up_content_type = Some ''application/json'',
                   up_json = Inr (JObject [(''output'', JString ''hello'')]),
                   up_text = Inr ''{}''\<rparr>"
    unfolding f_def init_def by simp
  have relayed: "relay \<lparr>up_status = 200, up_content_type = Some ''application/json'',
                   up_json = Inr (JObject [(''output'', JString ''hello'')]),
                   up_text = Inr ''{}''\<rparr> fresh_res
      = Inr \<lparr>res_headers = [], res_statusCode = 200,
             res_body = Some (JsonBody (JObject [(''output'', JString ''hello'')]))\<rparr>"
    by (simp add: relay_json contentType_def)
  have post: "req_method rq = ''POST''"
    by (simp add: rq_def)
  have "calls (handler \<lparr>THESYS_API_KEY = Some ''sk-1'', THESYS_API_URL = Some ''https://api.thesys.ai/v1/generate''\<rparr> f rq) = [(''https://api.thesys.ai/v1/generate'', init)]
      \<and> response (handler \<lparr>THESYS_API_KEY = Some ''sk-1'', THESYS_API_URL = Some ''https://api.thesys.ai/v1/generate''\<rparr> f rq)
          = \<lparr>res_headers = [], res_statusCode = 200,
             res_body = Some (JsonBody (JObject [(''output'', JString ''hello'')]))\<rparr>"
    using upstream_call_shape
      [of rq "\<lparr>THESYS_API_KEY = Some ''sk-1'', THESYS_API_URL = Some ''https://api.thesys.ai/v1/generate''\<rparr>" "''sk-1''" "''https://api.thesys.ai/v1/generate''" f, OF post]
    unfolding sent answer by (simp add: relayed)
  then show ?thesis
    unfolding f_def rq_def init_def .
qed

section \<open>Properties of the chat component\<close>

subsection \<open>The order of extraction\<close>

lemma get_Val: "v \<noteq> JNull \<Longrightarrow> get (Inr (Val v)) name = Inr (field (Val v) name)"
  by (cases v) simp_all

lemma field_falsy: "\<not> truthy v \<Longrightarrow> field v name = Undefined"
  by (cases "(v, name)" rule: field.cases) simp_all

lemma assistantText_order:
  assumes "json \<noteq> JNull"
  shows "assistantText json = Inr (first_resolved json)"
proof (cases "truthy (field (Val json) ''output'')")
  case True
  with assms show ?thesis
    by (simp add: assistantText_def first_resolved_def candidates_def get_Val or_js_def)
next
  case out: False
  show ?thesis
  proof (cases "first_choice json")
    case Undefined
    with assms out show ?thesis
      by (auto simp add: assistantText_def first_resolved_def candidates_def get_Val
            or_js_def and_js_def
          split: js_value.splits json.splits list.splits)
  next
    case (Val c)
    then obtain xs where ch: "field (Val json) ''choices'' = Val (JArray (c # xs))"
      by (auto split: js_value.splits json.splits list.splits)
    show ?thesis
    proof (cases "truthy (Val c)")
      case False
      with assms out ch Val show ?thesis
        by (simp add: assistantText_def first_resolved_def candidates_def get_Val
              or_js_def and_js_def field_falsy)
    next
      case True
      then have c: "c \<noteq> JNull" by auto
      show ?thesis
      proof (cases "truthy (field (Val c) ''text'')")
        case True
        with assms out ch Val c \<open>truthy (Val c)\<close> show ?thesis
          by (simp add: assistantText_def first_resolved_def candidates_def get_Val
                or_js_def and_js_def)
      next
        case notext: False
        have opt: "get_optional (Inr (field (Val c) ''message'')) ''content''
                    = Inr (field (field (Val c) ''message'') ''content'')"
          by (cases "(field (Val c) ''message'', ''content'')" rule: field.cases)
             (auto split: option.splits elim: get_optional.elims)
        from assms out ch Val c notext \<open>truthy (Val c)\<close> opt show ?thesis
          by (simp add: assistantText_def first_resolved_def candidates_def get_Val
                or_js_def and_js_def)
      qed
    qed
  qed
qed

text \<open>
  C3. On every payload but \<^verbatim>\<open>null\<close> the expression bound to \<^verbatim>\<open>assistantText\<close> is the
  first truthy value among, in this order, the top-level \<^verbatim>\<open>output\<close> field, the \<^verbatim>\<open>text\<close>
  field of the first element of \<^verbatim>\<open>choices\<close>, the \<^verbatim>\<open>content\<close> field of that element's
  \<^verbatim>\<open>message\<close>, and failing all three the serialization of the whole payload; the result
  is that value passed to \<^verbatim>\<open>String\<close>. In particular \<^verbatim>\<open>{choices:[{message:{content:"x"}}]}\<close>
  gives \<^verbatim>\<open>x\<close>, \<^verbatim>\<open>{choices:[{text:"y"}]}\<close> gives \<^verbatim>\<open>y\<close>, \<^verbatim>\<open>{foo:"bar"}\<close> gives its
  serialization \<^verbatim>\<open>{"foo":"bar"}\<close>, and \<^verbatim>\<open>{output:"z"}\<close> gives \<^verbatim>\<open>z\<close>, also with a
  \<^verbatim>\<open>choices\<close> field beside it, before or after. The fallback is \<^verbatim>\<open>JSON.stringify\<close>'s
  text: a number that overflowed on parsing shows as \<^verbatim>\<open>null\<close>, as in
  \<^verbatim>\<open>{"usage":null}\<close> for \<^verbatim>\<open>{"usage":1e400}\<close>; arrays, scalars, nested objects, escaped
  strings and a payload whose \<^verbatim>\<open>output\<close> is empty show as their JSON text.
\<close>

theorem extraction_order:
  "(json \<noteq> JNull \<longrightarrow>
      assistantText json = Inr (first_resolved json)
      \<and> normalizer json = String_js (first_resolved json))
   \<and> normalizer (JObject [(''choices'',
         JArray [JObject [(''message'', JObject [(''content'', JString ''x'')])]])])
       = Inr ''x''
   \<and> normalizer (JObject [(''choices'', JArray [JObject [(''text'', JString ''y'')]])]) = Inr ''y''
   \<and> normalizer (JObject [(''foo'', JString ''bar'')])
       = Inr (JSON_stringify (JObject [(''foo'', JString ''bar'')]))
   \<and> JSON_stringify (JObject [(''foo'', JString ''bar'')])
       = ''{'' @ [CHR 0x22] @ ''foo'' @ [CHR 0x22] @ '':'' @ [CHR 0x22] @ ''bar'' @ [CHR 0x22] @ ''}''
   \<and> normalizer (JObject [(''output'', JString ''z'')]) = Inr ''z''
   \<and> normalizer (JObject [(''output'', JString ''z''),
                           (''choices'', JArray [JObject [(''text'', JString ''y'')]])]) = Inr ''z''
   \<and> normalizer (JObject [(''choices'', JArray [JObject [(''text'', JString ''y'')]]),
                           (''output'', JString ''z'')]) = Inr ''z''
   \<and> normalizer (JObject [(''usage'', JNumber ''Infinity'')])
       = Inr (''{'' @ [CHR 0x22] @ ''usage'' @ [CHR 0x22] @ '':null}'')
   \<and> normalizer (JObject [(''usage'', JNumber ''-Infinity''), (''n'', JNumber ''1.5'')])
       = Inr (''{'' @ [CHR 0x22] @ ''usage'' @ [CHR 0x22] @ '':null,''
              @ [CHR 0x22] @ ''n'' @ [CHR 0x22] @ '':1.5}'')
   \<and> normalizer (JArray [JNull, JBool True, JBool False, JNumber ''-2'', JString ''a'',
                          JArray [], JObject []])
       = Inr (''[null,true,false,-2,'' @ [CHR 0x22] @ ''a'' @ [CHR 0x22] @ '',[],{}]'')
   \<and> normalizer (JString [CHR ''a'', CHR 0x22, CHR 0x5C, CHR 0x0A, CHR 0x01])
       = Inr [CHR 0x22, CHR ''a'', CHR 0x5C, CHR 0x22, CHR 0x5C, CHR 0x5C, CHR 0x5C, CHR ''n'',
              CHR 0x5C, CHR ''u'', CHR ''0'', CHR ''0'', CHR ''0'', CHR ''1'', CHR 0x22]
   \<and> normalizer (JNumber ''0'') = Inr (''0'')
   \<and> normalizer (JBool False) = Inr (''false'')
   \<and> normalizer (JObject [(''output'', JString []), (''choices'', JArray [])])
       = Inr (''{'' @ [CHR 0x22] @ ''output'' @ [CHR 0x22] @ '':'' @ [CHR 0x22, CHR 0x22] @ '',''
              @ [CHR 0x22] @ ''choices'' @ [CHR 0x22] @ '':[]}'')
   \<and> normalizer (JObject [(''data'', JObject [(''items'', JArray [JNumber ''1'', JNumber ''2''])])])
       = Inr (''{'' @ [CHR 0x22] @ ''data'' @ [CHR 0x22] @ '':{''
              @ [CHR 0x22] @ ''items'' @ [CHR 0x22] @ '':[1,2]}}'')"
proof -
  have "(json \<noteq> JNull \<longrightarrow>
        assistantText json = Inr (first_resolved json)
        \<and> normalizer json = String_js (first_resolved json))"
    by (simp add: assistantText_order normalizer_def)
  moreover have "normalizer (JObject [(''choices'',
         JArray [JObject [(''message'', JObject [(''content'', JString ''x'')])]])])
       = Inr ''x''"
    by (simp add: normalizer_def assistantText_order first_resolved_def candidates_def
          quote_def quote_char_def non_finite_def hex_digit_def)
  moreover have "normalizer (JObject [(''choices'', JArray [JObject [(''text'', JString ''y'')]])]) = Inr ''y''"
    by (simp add: normalizer_def assistantText_order first_resolved_def candidates_def
          quote_def quote_char_def non_finite_def hex_digit_def)
  moreover have "normalizer (JObject [(''foo'', JString ''bar'')])
       = Inr (JSON_stringify (JObject [(''foo'', JString ''bar'')]))"
    by (simp add: normalizer_def assistantText_order first_resolved_def candidates_def
          quote_def quote_char_def non_finite_def hex_digit_def)
  moreover have "JSON_stringify (JObject [(''foo'', JString ''bar'')])
       = ''{'' @ [CHR 0x22] @ ''foo'' @ [CHR 0x22] @ '':'' @ [CHR 0x22] @ ''bar'' @ [CHR 0x22] @ ''}''"
    by (simp add: normalizer_def assistantText_order first_resolved_def candidates_def
          quote_def quote_char_def non_finite_def hex_digit_def)
  moreover have "normalizer (JObject [(''output'', JString ''z'')]) = Inr ''z''"
    by (simp add: normalizer_def assistantText_order first_resolved_def candidates_def
          quote_def quote_char_def non_finite_def hex_digit_def)
  moreover have "normalizer (JObject [(''output'', JString ''z''),
                           (''choices'', JArray [JObject [(''text'', JString ''y'')]])]) = Inr ''z''"
    by (simp add: normalizer_def assistantText_order first_resolved_def candidates_def
          quote_def quote_char_def non_finite_def hex_digit_def)
  moreover have "normalizer (JObject [(''choices'', JArray [JObject [(''text'', JString ''y'')]]),
                           (''output'', JString ''z'')]) = Inr ''z''"
    by (simp add: normalizer_def assistantText_order first_resolved_def candidates_def
          quote_def quote_char_def non_finite_def hex_digit_def)
  moreover have "normalizer (JObject [(''usage'', JNumber ''Infinity'')])
       = Inr (''{'' @ [CHR 0x22] @ ''usage'' @ [CHR 0x22] @ '':null}'')"
    by (simp add: normalizer_def assistantText_order first_resolved_def candidates_def
          quote_def quote_char_def non_finite_def hex_digit_def)
  moreover have "normalizer (JObject [(''usage'', JNumber ''-Infinity''), (''n'', JNumber ''1.5'')])
       = Inr (''{'' @ [CHR 0x22] @ ''usage'' @ [CHR 0x22] @ '':null,''
              @ [CHR 0x22] @ ''n'' @ [CHR 0x22] @ '':1.5}'')"
    by (simp add: normalizer_def assistantText_order first_resolved_def candidates_def
          quote_def quote_char_def non_finite_def hex_digit_def)
  moreover have "normalizer (JArray [JNull, JBool True, JBool False, JNumber ''-2'', JString ''a'',
                          JArray [], JObject []])
       = Inr (''[null,true,false,-2,'' @ [CHR 0x22] @ ''a'' @ [CHR 0x22] @ '',[],{}]'')"
    by (simp add: normalizer_def assistantText_order first_resolved_def candidates_def
          quote_def quote_char_def non_finite_def hex_digit_def)
  moreover have "normalizer (JString [CHR ''a'', CHR 0x22, CHR 0x5C, CHR 0x0A, CHR 0x01])
       = Inr [CHR 0x22, CHR ''a'', CHR 0x5C, CHR 0x22, CHR 0x5C, CHR 0x5C, CHR 0x5C, CHR ''n'',
              CHR 0x5C, CHR ''u'', CHR ''0'', CHR ''0'', CHR ''0'', CHR ''1'', CHR 0x22]"
    by (simp add: normalizer_def assistantText_order first_resolved_def candidates_def
          quote_def quote_char_def non_finite_def hex_digit_def)
  moreover have "normalizer (JNumber ''0'') = Inr (''0'')"
    by (simp add: normalizer_def assistantText_order first_resolved_def candidates_def
          quote_def quote_char_def non_finite_def hex_digit_def)
  moreover have "normalizer (JBool False) = Inr (''false'')"
    by (simp add: normalizer_def assistantText_order first_resolved_def candidates_def
          quote_def quote_char_def non_finite_def hex_digit_def)
  moreover have "normalizer (JObject [(''output'', JString []), (''choices'', JArray [])])
       = Inr (''{'' @ [CHR 0x22] @ ''output'' @ [CHR 0x22] @ '':'' @ [CHR 0x22, CHR 0x22] @ '',''
              @ [CHR 0x22] @ ''choices'' @ [CHR 0x22] @ '':[]}'')"
    by (simp add: normalizer_def assistantText_order first_resolved_def candidates_def
          quote_def quote_char_def non_finite_def hex_digit_def)
  moreover have "normalizer (JObject [(''data'', JObject [(''items'', JArray [JNumber ''1'', JNumber ''2''])])])
       = Inr (''{'' @ [CHR 0x22] @ ''data'' @ [CHR 0x22] @ '':{''
              @ [CHR 0x22] @ ''items'' @ [CHR 0x22] @ '':[1,2]}}'')"
    by (simp add: normalizer_def assistantText_order first_resolved_def candidates_def
          quote_def quote_char_def non_finite_def hex_digit_def)
  ultimately show ?thesis by (intro conjI)
qed

text \<open>An empty \<^verbatim>\<open>text\<close> is passed over and the nested content is taken.\<close>

theorem extraction_order_witness:
  "JObject [(''choices'', JArray [JObject [(''text'', JString []),
            (''message'', JObject [(''content'', JString ''x'')])]])] \<noteq> JNull
   \<and> first_resolved (JObject [(''choices'', JArray [JObject [(''text'', JString []),
            (''message'', JObject [(''content'', JString ''x'')])]])])
       = Val (JString ''x'')
   \<and> assistantText (JObject [(''choices'', JArray [JObject [(''text'', JString []),
            (''message'', JObject [(''content'', JString ''x'')])]])])
       = Inr (Val (JString ''x''))"
  using extraction_order
    [of "JObject [(''choices'', JArray [JObject [(''text'', JString []),
            (''message'', JObject [(''content'', JString ''x'')])]])]"]
  by (simp add: first_resolved_def candidates_def)

subsection \<open>Payloads on which the extraction throws\<close>

text \<open>
  C9. The extraction is not total: on the payload \<^verbatim>\<open>null\<close> the read of \<^verbatim>\<open>json.output\<close>
  throws a TypeError before the fallback, which would have given \<^verbatim>\<open>null\<close> as text, is
  reached; and on \<^verbatim>\<open>{output: {toString: "x"}}\<close> the call of \<^verbatim>\<open>String\<close> throws one.
  Neither returns a string.
\<close>

theorem normalizer_throws:
  "normalizer JNull = Inl (cannot_read ''null'' ''output'')
   \<and> JSON_stringify JNull = ''null''
   \<and> normalizer (JObject [(''output'', JObject [(''toString'', JString ''x'')])])
       = Inl (TypeError ''Cannot convert object to primitive value'')"
  by (simp add: normalizer_def assistantText_def or_js_def)

subsection \<open>Blank input\<close>

lemma trim_blank:
  assumes "list_all WhiteSpace s"
  shows "trim s = []"
proof -
  from assms have blank: "dropWhile WhiteSpace s = []"
    by (simp add: list_all_iff)
  show ?thesis
    unfolding trim_def blank by simp
qed

text \<open>
  C10. If the input is empty or holds white space only, a call of \<^verbatim>\<open>send\<close> does
  nothing: it calls no state setter, so no message is appended and the loading flag is
  not set, it issues no request, and the component's state is what it was.
\<close>

theorem blank_input_noop:
  assumes "list_all WhiteSpace (input st)"
  shows "send fetch (input st) = []
       \<and> rendered fetch st = st"
  using assms by (simp add: send_def rendered_def trim_blank)

theorem blank_input_noop_witness:
  "list_all WhiteSpace
     (input \<lparr>input = [CHR 0x20, CHR 0x09, CHR 0x0A], messages = [], loading = False\<rparr>)
   \<and> send (\<lambda>url init. Inl (TypeError ''Failed to fetch''))
        (input \<lparr>input = [CHR 0x20, CHR 0x09, CHR 0x0A], messages = [], loading = False\<rparr>) = []
   \<and> rendered (\<lambda>url init. Inl (TypeError ''Failed to fetch''))
        \<lparr>input = [CHR 0x20, CHR 0x09, CHR 0x0A], messages = [], loading = False\<rparr>
      = \<lparr>input = [CHR 0x20, CHR 0x09, CHR 0x0A], messages = [], loading = False\<rparr>"
  using blank_input_noop
    [of "\<lparr>input = [CHR 0x20, CHR 0x09, CHR 0x0A], messages = [], loading = False\<rparr>"
        "\<lambda>url init. Inl (TypeError ''Failed to fetch'')"]
  by (simp add: WhiteSpace_def)

end
